theory Spec2Isabelle
  imports Main "HOL-Library.Sublist"
begin

text \<open>
  A model of \<open>secscan.py\<close>, the script that configures a Git repository to scan commits
  for secrets with gitleaks through pre-commit. The script is a sequence of calls to the
  world outside it (the search path, subprocesses, the clock, the filesystem), so the
  model threads a world through every function: it holds what the calls answer, the
  filesystem, and a log of the calls made. A function returns its result, or the
  exception that left it, paired with the world it leaves behind.
\<close>

section \<open>Python string operations used by secscan.py\<close>

text \<open>
  A Python \<open>str\<close> is modelled as a \<open>string\<close>: a list of characters, each read as
  a code point below 256. The outputs the script parses (tool versions, a directory
  name) and the text it writes are of that kind.
\<close>

text \<open>\<open>str.isspace\<close> on one character: the code points below 256 Python counts as
  whitespace (TAB, LF, VT, FF, CR, FS, GS, RS, US, SPACE, NEL, NBSP).\<close>

definition isspace :: "char \<Rightarrow> bool" where
  "isspace c = (of_char c \<in> set [9, 10, 11, 12, 13, 28, 29, 30, 31, 32, 133, 160 :: nat])"

text \<open>\<open>s.strip()\<close>: leading and trailing whitespace removed.\<close>

definition py_strip :: "string \<Rightarrow> string" where
  "py_strip s = rev (dropWhile isspace (rev (dropWhile isspace s)))"

text \<open>\<open>s.split()\<close> with no argument: the maximal runs of non-whitespace characters, in
  order; no empty string is produced. \<open>cur\<close> is the token being read.\<close>

fun split_ws :: "string \<Rightarrow> string \<Rightarrow> string list" where
  "split_ws cur [] = (if cur = [] then [] else [cur])"
| "split_ws cur (c # cs) =
     (if isspace c then (if cur = [] then split_ws [] cs else cur # split_ws [] cs)
      else split_ws (cur @ [c]) cs)"

definition py_split :: "string \<Rightarrow> string list" where
  "py_split s = split_ws [] s"

text \<open>\<open>s.split(sep)\<close> with a one-character separator: every occurrence of the separator
  ends a field, so empty fields are kept and the result is never empty.\<close>

fun split_on :: "char \<Rightarrow> string \<Rightarrow> string \<Rightarrow> string list" where
  "split_on sep cur [] = [cur]"
| "split_on sep cur (c # cs) =
     (if c = sep then cur # split_on sep [] cs else split_on sep (cur @ [c]) cs)"

definition py_split_sep :: "char \<Rightarrow> string \<Rightarrow> string list" where
  "py_split_sep sep s = split_on sep [] s"

text \<open>\<open>s.removeprefix(pre)\<close>: the prefix is removed once when \<open>s\<close> starts with it.\<close>

definition py_removeprefix :: "string \<Rightarrow> string \<Rightarrow> string" where
  "py_removeprefix pre s = (if prefix pre s then drop (length pre) s else s)"

text \<open>\<open>sub in s\<close>: \<open>sub\<close> occurs in \<open>s\<close> as a contiguous run.\<close>

fun py_in :: "string \<Rightarrow> string \<Rightarrow> bool" where
  "py_in sub [] = (sub = [])"
| "py_in sub (c # cs) = (prefix sub (c # cs) \<or> py_in sub cs)"

text \<open>The exceptions that can leave a function of the script.\<close>

datatype pyerror =
    CalledProcessError
  | FileNotFoundError
  | IndexError
  | IsADirectoryError
  | ShutilError

text \<open>\<open>xs[i]\<close> for a non-negative index: IndexError out of range.\<close>

definition py_index :: "'a list \<Rightarrow> nat \<Rightarrow> pyerror + 'a" where
  "py_index xs i = (if i < length xs then Inr (xs ! i) else Inl IndexError)"

section \<open>The process environment\<close>

text \<open>What \<open>subprocess.run(argv, capture_output=True, text=True)\<close> meets: no such
  executable, or a process that ends with a return code and its standard output.\<close>

datatype proc_result = NotFound | Exited int string

text \<open>A filesystem entry: a regular file with its text, or a directory.\<close>

datatype node = File string | Dir

text \<open>A naive \<open>datetime\<close> value.\<close>

record datetime =
  year :: nat
  month :: nat
  day :: nat
  hour :: nat
  minute :: nat
  second :: nat

text \<open>The messages the script prints, one constructor per \<open>print\<close> call, carrying the
  values interpolated into the text.\<close>

datatype message =
    DryAlreadyConfigured
  | DryWouldRunInstall
  | DryWouldMove string string
  | DryWouldWrite string string
  | AlreadyConfigured string
  | HooksInstalled
  | ConfigMoved string
  | Wrote string
  | SetupComplete string string
  | NotAtToplevel
  | MissingTools
  | InstallGitleaksHint
  | InstallPreCommitHint

text \<open>Every interaction of the script with the world outside it, in the order made.\<close>

datatype call =
    Which string
  | Run "string list"
  | ReadText string
  | Move string string
  | WriteText string string
  | Print message

text \<open>
  The world a run sees. \<open>cwd\<close> is \<open>Path.cwd()\<close>; \<open>resolve\<close> is \<open>Path(s).resolve()\<close>, the
  canonical absolute path as its list of components; \<open>which\<close> is \<open>shutil.which\<close>;
  \<open>run\<close> gives the outcome of each command line; \<open>now\<close> is what \<open>datetime.now()\<close>
  returns, the local wall-clock time, and \<open>utcnow\<close> the UTC time of the same instant
  (the script never reads it); \<open>fs\<close> is the filesystem and \<open>trace\<close> the calls made so
  far. Only \<open>fs\<close> and \<open>trace\<close> change during a run. What an external command does to
  the filesystem is its own business and is not part of \<open>fs\<close>.
\<close>

record world =
  cwd :: string
  resolve :: "string \<Rightarrow> string list"
  which :: "string \<Rightarrow> string option"
  run :: "string list \<Rightarrow> proc_result"
  now :: datetime
  utcnow :: datetime
  fs :: "string \<Rightarrow> node option"
  trace :: "call list"

definition log :: "call \<Rightarrow> world \<Rightarrow> world" where
  "log c w = w\<lparr>trace := trace w @ [c]\<rparr>"

definition print :: "message \<Rightarrow> world \<Rightarrow> world" where
  "print m w = log (Print m) w"

text \<open>\<open>subprocess.run(argv, ..., check=True)\<close>: FileNotFoundError when the executable
  does not exist, CalledProcessError on a non-zero return code, else the output.\<close>

definition subprocess_run :: "string list \<Rightarrow> world \<Rightarrow> (pyerror + string) \<times> world" where
  "subprocess_run argv w =
     (case run w argv of
        NotFound \<Rightarrow> (Inl FileNotFoundError, log (Run argv) w)
      | Exited rc out \<Rightarrow>
          if rc \<noteq> 0 then (Inl CalledProcessError, log (Run argv) w)
          else (Inr out, log (Run argv) w))"

section \<open>check_in_repo\<close>

definition git_toplevel_cmd :: "string list" where
  "git_toplevel_cmd = [''git'', ''rev-parse'', ''--show-toplevel'']"

text \<open>Lines 24 to 32. Only CalledProcessError is caught.\<close>

definition check_in_repo :: "world \<Rightarrow> (pyerror + bool) \<times> world" where
  "check_in_repo w =
     (case subprocess_run git_toplevel_cmd w of
        (Inl CalledProcessError, w1) \<Rightarrow> (Inr False, w1)
      | (Inl e, w1) \<Rightarrow> (Inl e, w1)
      | (Inr out, w1) \<Rightarrow>
          (let repo_toplevel = py_strip out
           in (Inr (resolve w1 (cwd w1) = resolve w1 repo_toplevel), w1)))"

section \<open>check_commands\<close>

record tool_status =
  status :: bool
  version :: string

record commands_status =
  gitleaks :: tool_status
  pre_commit :: tool_status

definition not_installed :: commands_status where
  "not_installed =
     \<lparr>gitleaks = \<lparr>status = False, version = ''''\<rparr>,
      pre_commit = \<lparr>status = False, version = ''''\<rparr>\<rparr>"

definition gitleaks_version_cmd :: "string list" where
  "gitleaks_version_cmd = [''gitleaks'', ''version'']"

definition pre_commit_version_cmd :: "string list" where
  "pre_commit_version_cmd = [''pre-commit'', ''--version'']"

text \<open>The try block of lines 47 to 54: the status is set before the output is parsed,
  and an IndexError of the parse is not caught.\<close>

definition try_gitleaks :: "world \<Rightarrow> (pyerror + tool_status) \<times> world" where
  "try_gitleaks w =
     (case subprocess_run gitleaks_version_cmd w of
        (Inl CalledProcessError, w1) \<Rightarrow> (Inr \<lparr>status = False, version = ''''\<rparr>, w1)
      | (Inl e, w1) \<Rightarrow> (Inl e, w1)
      | (Inr out, w1) \<Rightarrow>
          (case py_index (py_split (py_strip out)) 0 of
             Inl e \<Rightarrow> (Inl e, w1)
           | Inr tok \<Rightarrow> (Inr \<lparr>status = True, version = py_removeprefix ''v'' tok\<rparr>, w1)))"

text \<open>The try block of lines 62 to 69.\<close>

definition try_pre_commit :: "world \<Rightarrow> (pyerror + tool_status) \<times> world" where
  "try_pre_commit w =
     (case subprocess_run pre_commit_version_cmd w of
        (Inl CalledProcessError, w1) \<Rightarrow> (Inr \<lparr>status = False, version = ''''\<rparr>, w1)
      | (Inl e, w1) \<Rightarrow> (Inl e, w1)
      | (Inr out, w1) \<Rightarrow>
          (case py_index (py_split_sep CHR '' '' (py_strip out)) 1 of
             Inl e \<Rightarrow> (Inl e, w1)
           | Inr tok \<Rightarrow> (Inr \<lparr>status = True, version = tok\<rparr>, w1)))"

text \<open>Lines 35 to 79.\<close>

definition check_commands :: "world \<Rightarrow> (pyerror + commands_status) \<times> world" where
  "check_commands w =
     (let w1 = log (Which ''gitleaks'') w in
      if which w1 ''gitleaks'' = None then (Inr not_installed, w1)
      else
        (case try_gitleaks w1 of
           (Inl e, w2) \<Rightarrow> (Inl e, w2)
         | (Inr g, w2) \<Rightarrow>
             (let w3 = log (Which ''pre-commit'') w2 in
              if which w3 ''pre-commit'' = None then (Inr not_installed, w3)
              else
                (case try_pre_commit w3 of
                   (Inl e, w4) \<Rightarrow> (Inl e, w4)
                 | (Inr pc, w4) \<Rightarrow> (Inr \<lparr>gitleaks = g, pre_commit = pc\<rparr>, w4)))))"

section \<open>config_secscan\<close>

text \<open>\<open>str(Path(d) / name)\<close> for an absolute directory \<open>d\<close> and a single component
  \<open>name\<close>; also \<open>os.path.join(d, name)\<close>.\<close>

definition path_join :: "string \<Rightarrow> string \<Rightarrow> string" where
  "path_join d name = (if d \<noteq> [] \<and> last d = CHR ''/'' then d @ name else d @ ''/'' @ name)"

text \<open>\<open>os.path.basename(p.rstrip("/"))\<close>, as \<open>shutil.move\<close> computes it.\<close>

definition basename :: "string \<Rightarrow> string" where
  "basename p =
     rev (takeWhile (\<lambda>c. c \<noteq> CHR ''/'') (dropWhile (\<lambda>c. c = CHR ''/'') (rev p)))"

definition digit :: "nat \<Rightarrow> char" where
  "digit d = ''0123456789'' ! (d mod 10)"

definition pad2 :: "nat \<Rightarrow> string" where
  "pad2 n = [digit (n div 10), digit n]"

definition pad4 :: "nat \<Rightarrow> string" where
  "pad4 n = [digit (n div 1000), digit (n div 100), digit (n div 10), digit n]"

text \<open>\<open>t.strftime("%Y%m%dT%H%M%SZ")\<close> for a datetime with a four-digit year: the
  fields zero-padded, a literal T between date and time and a literal Z at the end.\<close>

definition strftime :: "datetime \<Rightarrow> string" where
  "strftime t =
     pad4 (year t) @ pad2 (month t) @ pad2 (day t) @ ''T'' @
     pad2 (hour t) @ pad2 (minute t) @ pad2 (second t) @ ''Z''"

definition config_name :: string where
  "config_name = ''.pre-commit-config.yaml''"

text \<open>Line 90: \<open>p = Path.cwd() / ".pre-commit-config.yaml"\<close>.\<close>

definition config_path :: "world \<Rightarrow> string" where
  "config_path w = path_join (cwd w) config_name"

text \<open>Lines 91 and 92: the timestamp is taken from \<open>datetime.now()\<close>, and \<open>p.parent\<close> is
  the working directory.\<close>

definition backup_path :: "world \<Rightarrow> string" where
  "backup_path w =
     (let timestamp = strftime (now w)
      in path_join (cwd w) (config_name @ ''-'' @ timestamp))"

text \<open>Lines 83 to 89, the f-string.\<close>

definition pre_commit_config :: "string \<Rightarrow> string" where
  "pre_commit_config gitleaks_version =
     ''repos:\<newline>'' @
     ''  - repo: https://github.com/gitleaks/gitleaks\<newline>'' @
     ''    rev: v'' @ gitleaks_version @ ''\<newline>'' @
     ''    hooks:\<newline>'' @
     ''      - id: gitleaks\<newline>''"

definition install_cmd :: "string list" where
  "install_cmd = [''pre-commit'', ''install'']"

text \<open>\<open>p.exists()\<close>.\<close>

definition path_exists :: "string \<Rightarrow> world \<Rightarrow> bool" where
  "path_exists p w = (fs w p \<noteq> None)"

text \<open>\<open>p.read_text()\<close>.\<close>

definition read_text :: "string \<Rightarrow> world \<Rightarrow> (pyerror + string) \<times> world" where
  "read_text p w =
     (case fs w p of
        None \<Rightarrow> (Inl FileNotFoundError, log (ReadText p) w)
      | Some Dir \<Rightarrow> (Inl IsADirectoryError, log (ReadText p) w)
      | Some (File s) \<Rightarrow> (Inr s, log (ReadText p) w))"

text \<open>\<open>p.write_text(s)\<close>: the file is created or replaced with exactly \<open>s\<close>.\<close>

definition write_text :: "string \<Rightarrow> string \<Rightarrow> world \<Rightarrow> (pyerror + unit) \<times> world" where
  "write_text p s w =
     (case fs w p of
        Some Dir \<Rightarrow> (Inl IsADirectoryError, log (WriteText p s) w)
      | _ \<Rightarrow> (Inr (), (log (WriteText p s) w)\<lparr>fs := (fs w)(p \<mapsto> File s)\<rparr>))"

text \<open>
  \<open>shutil.move(src, dst)\<close>. When \<open>dst\<close> is an existing directory the source is moved
  into it under its own base name, and shutil.Error is raised when that name is taken
  there. Otherwise the source is renamed to \<open>dst\<close>, replacing a file already there.
\<close>

definition shutil_move :: "string \<Rightarrow> string \<Rightarrow> world \<Rightarrow> (pyerror + unit) \<times> world" where
  "shutil_move src dst w =
     (let w1 = log (Move src dst) w in
      case fs w src of
        None \<Rightarrow> (Inl FileNotFoundError, w1)
      | Some n \<Rightarrow>
          if fs w dst = Some Dir then
            (let real_dst = path_join dst (basename src) in
             if fs w real_dst \<noteq> None then (Inl ShutilError, w1)
             else (Inr (), w1\<lparr>fs := (fs w)(src := None, real_dst \<mapsto> n)\<rparr>))
          else (Inr (), w1\<lparr>fs := (fs w)(src := None, dst \<mapsto> n)\<rparr>))"

text \<open>Lines 122 to 133, reached when no configuration file exists and after the
  existing one was moved away. \<open>p\<close> and \<open>content\<close> are the locals \<open>p\<close> and
  \<open>pre_commit_config\<close> of \<open>config_secscan\<close>; \<open>pre_commit_version\<close> is the module-level
  variable that line 129 reads.\<close>

definition config_secscan_write ::
  "string \<Rightarrow> string \<Rightarrow> string \<Rightarrow> string \<Rightarrow> world \<Rightarrow> (pyerror + unit) \<times> world" where
  "config_secscan_write p content pre_commit_version gitleaks_version w =
     (case write_text p content w of
        (Inl e, w1) \<Rightarrow> (Inl e, w1)
      | (Inr _, w1) \<Rightarrow>
          (case subprocess_run install_cmd (print (Wrote p) w1) of
             (Inl e, w2) \<Rightarrow> (Inl e, w2)
           | (Inr _, w2) \<Rightarrow>
               (Inr (), print (SetupComplete gitleaks_version pre_commit_version) w2)))"

text \<open>Lines 82 to 133. The first parameter is the module-level \<open>pre_commit_version\<close>.\<close>

definition config_secscan ::
  "string \<Rightarrow> string \<Rightarrow> bool \<Rightarrow> world \<Rightarrow> (pyerror + unit) \<times> world" where
  "config_secscan pre_commit_version gitleaks_version dry_run w =
     (let content = pre_commit_config gitleaks_version;
          p = config_path w;
          backup = backup_path w
      in
      if dry_run then
        (if path_exists p w then
           (case read_text p w of
              (Inl e, w1) \<Rightarrow> (Inl e, w1)
            | (Inr config_content, w1) \<Rightarrow>
                if py_in ''id: gitleaks'' config_content then
                  (Inr (),
                   print DryWouldRunInstall
                     (print DryWouldRunInstall (print DryAlreadyConfigured w1)))
                else
                  (Inr (),
                   print DryWouldRunInstall
                     (print (DryWouldWrite p content) (print (DryWouldMove p backup) w1))))
         else (Inr (), print DryWouldRunInstall (print (DryWouldWrite p content) w)))
      else
        (if path_exists p w then
           (case read_text p w of
              (Inl e, w1) \<Rightarrow> (Inl e, w1)
            | (Inr config_content, w1) \<Rightarrow>
                if py_in ''id: gitleaks'' config_content then
                  (case subprocess_run install_cmd (print (AlreadyConfigured gitleaks_version) w1) of
                     (Inl e, w2) \<Rightarrow> (Inl e, w2)
                   | (Inr _, w2) \<Rightarrow> (Inr (), print HooksInstalled w2))
                else
                  (case shutil_move p backup w1 of
                     (Inl e, w2) \<Rightarrow> (Inl e, w2)
                   | (Inr _, w2) \<Rightarrow>
                       config_secscan_write p content pre_commit_version gitleaks_version
                         (print (ConfigMoved backup) w2)))
         else config_secscan_write p content pre_commit_version gitleaks_version w))"

section \<open>The script body\<close>

text \<open>The parser's required, mutually exclusive group admits exactly one of the two
  flags.\<close>

datatype mode = Setup | DryRun

text \<open>How the process ends: \<open>sys.exit(n)\<close>, or an exception nobody caught.\<close>

datatype outcome = Exit nat | Uncaught pyerror

text \<open>Lines 136 to 161.\<close>

definition main :: "mode \<Rightarrow> world \<Rightarrow> outcome \<times> world" where
  "main args w =
     (case check_in_repo w of
        (Inl e, w1) \<Rightarrow> (Uncaught e, w1)
      | (Inr in_repo, w1) \<Rightarrow>
          if \<not> in_repo then (Exit 1, print NotAtToplevel w1)
          else
            (case check_commands w1 of
               (Inl e, w2) \<Rightarrow> (Uncaught e, w2)
             | (Inr cs, w2) \<Rightarrow>
                 (let gitleaks_status = status (gitleaks cs);
                      gitleaks_version = version (gitleaks cs);
                      pre_commit_status = status (pre_commit cs);
                      pre_commit_version = version (pre_commit cs)
                  in
                  if \<not> (gitleaks_status \<and> pre_commit_status) then
                    (Exit 1,
                     print InstallPreCommitHint (print InstallGitleaksHint (print MissingTools w2)))
                  else
                    (case args of
                       DryRun \<Rightarrow>
                         (case config_secscan pre_commit_version gitleaks_version True w2 of
                            (Inl e, w3) \<Rightarrow> (Uncaught e, w3)
                          | (Inr _, w3) \<Rightarrow> (Exit 0, w3))
                     | Setup \<Rightarrow>
                         (case config_secscan pre_commit_version gitleaks_version False w2 of
                            (Inl e, w3) \<Rightarrow> (Uncaught e, w3)
                          | (Inr _, w3) \<Rightarrow> (Exit 0, w3))))))"

text \<open>The calls that change something: a move, a write, and the hook installation.\<close>

fun is_mutation :: "call \<Rightarrow> bool" where
  "is_mutation (Move _ _) = True"
| "is_mutation (WriteText _ _) = True"
| "is_mutation (Run argv) = (argv = install_cmd)"
| "is_mutation _ = False"

definition mutations :: "world \<Rightarrow> call list" where
  "mutations w = filter is_mutation (trace w)"

section \<open>Notions used to state the properties\<close>

text \<open>The first whitespace-separated token of a text, in the spec's words: skip the
  leading whitespace, then read up to the next whitespace character.\<close>

definition first_token :: "string \<Rightarrow> string" where
  "first_token s = takeWhile (\<lambda>c. \<not> isspace c) (dropWhile isspace s)"

text \<open>The version string as the spec words it for both tools: the first token of the
  output with one leading \<open>v\<close> removed.\<close>

definition spec_version :: "string \<Rightarrow> string" where
  "spec_version out = py_removeprefix ''v'' (first_token out)"

text \<open>The second whitespace-separated token: the first token of what follows the
  first one.\<close>

definition second_token :: "string \<Rightarrow> string" where
  "second_token s = first_token (dropWhile (\<lambda>c. \<not> isspace c) (dropWhile isspace s))"

text \<open>The directory the version-control query reports: the line it prints, without the
  line terminator.\<close>

definition git_reported_path :: "string \<Rightarrow> string" where
  "git_reported_path out =
     (if out \<noteq> [] \<and> last out = CHR 0x0A then butlast out else out)"

text \<open>The calls logged between an earlier world and a later one.\<close>

definition calls_since :: "world \<Rightarrow> world \<Rightarrow> call list" where
  "calls_since w w' = drop (length (trace w)) (trace w')"

text \<open>The calls only \<open>config_secscan\<close> makes: reading the configuration file, and the
  calls that change something.\<close>

fun is_config_action :: "call \<Rightarrow> bool" where
  "is_config_action (ReadText _) = True"
| "is_config_action c = is_mutation c"

definition config_actions :: "world \<Rightarrow> call list" where
  "config_actions w = filter is_config_action (trace w)"

section \<open>Example worlds\<close>

text \<open>A repository at \<open>/repo\<close> with both tools installed and no configuration file, on
  a host whose local time is five and a half hours ahead of UTC.\<close>

definition sample_world :: world where
  "sample_world =
     \<lparr>cwd = ''/repo'',
      resolve = (\<lambda>s. py_split_sep CHR ''/'' s),
      which = (\<lambda>n. if n = ''gitleaks'' then Some ''/usr/bin/gitleaks''
                    else if n = ''pre-commit'' then Some ''/usr/bin/pre-commit'' else None),
      run = (\<lambda>argv.
               if argv = git_toplevel_cmd then Exited 0 ''/repo\<newline>''
               else if argv = gitleaks_version_cmd then Exited 0 ''v8.18.2\<newline>''
               else if argv = pre_commit_version_cmd then Exited 0 ''pre-commit 3.0.0\<newline>''
               else if argv = install_cmd then Exited 0 ''pre-commit installed\<newline>''
               else NotFound),
      now = \<lparr>year = 2025, month = 9, day = 9, hour = 17, minute = 30, second = 0\<rparr>,
      utcnow = \<lparr>year = 2025, month = 9, day = 9, hour = 12, minute = 0, second = 0\<rparr>,
      fs = Map.empty,
      trace = []\<rparr>"

text \<open>The same world with a configuration file of the given content.\<close>

definition with_config :: "string \<Rightarrow> world \<Rightarrow> world" where
  "with_config c w = w\<lparr>fs := [config_path w \<mapsto> File c]\<rparr>"

text \<open>The same world where \<open>pre-commit install\<close> exits with status 1.\<close>

definition failing_install :: "world \<Rightarrow> world" where
  "failing_install w =
     w\<lparr>run := \<lambda>argv. if argv = install_cmd then Exited 1 '''' else run w argv\<rparr>"

text \<open>The script started in a subdirectory of the repository, and without the hook
  manager on the search path.\<close>

definition subdir_world :: world where
  "subdir_world = sample_world\<lparr>cwd := ''/repo/src''\<rparr>"

definition no_pre_commit_world :: world where
  "no_pre_commit_world =
     sample_world\<lparr>which := \<lambda>n. if n = ''gitleaks'' then Some ''/usr/bin/gitleaks'' else None\<rparr>"

text \<open>Without the secret scanner on the search path.\<close>

definition no_gitleaks_world :: world where
  "no_gitleaks_world =
     sample_world\<lparr>which := \<lambda>n. if n = ''pre-commit'' then Some ''/usr/bin/pre-commit'' else None\<rparr>"

text \<open>The hook manager printing its version alone, without its name.\<close>

definition bare_version_world :: world where
  "bare_version_world =
     sample_world\<lparr>run := \<lambda>argv. if argv = pre_commit_version_cmd then Exited 0 ''3.0.0\<newline>''
                      else run sample_world argv\<rparr>"

text \<open>A repository whose top-level directory is named \<open>repo\<close> followed by a space, with
  the script started in that directory.\<close>

definition trailing_space_world :: world where
  "trailing_space_world =
     sample_world\<lparr>cwd := ''/repo '',
       run := \<lambda>argv. if argv = git_toplevel_cmd then Exited 0 ''/repo \<newline>''
                      else run sample_world argv\<rparr>"

lemmas eval_defs =
  sample_world_def with_config_def main_def check_in_repo_def check_commands_def
  try_gitleaks_def try_pre_commit_def config_secscan_def config_secscan_write_def
  subprocess_run_def read_text_def write_text_def shutil_move_def path_exists_def
  config_path_def backup_path_def path_join_def config_name_def strftime_def pad2_def pad4_def
  digit_def pre_commit_config_def install_cmd_def git_toplevel_cmd_def gitleaks_version_cmd_def
  pre_commit_version_cmd_def log_def print_def py_strip_def py_split_def py_split_sep_def
  py_index_def py_removeprefix_def isspace_def not_installed_def Let_def

section \<open>Auxiliary facts\<close>

subsection \<open>The log\<close>

lemma which_log [simp]: "which (log c w) = which w"
  by (simp add: log_def)

lemma log_simps [simp]:
  "cwd (log c w) = cwd w" "resolve (log c w) = resolve w" "run (log c w) = run w"
  "now (log c w) = now w" "utcnow (log c w) = utcnow w" "fs (log c w) = fs w"
  "trace (log c w) = trace w @ [c]"
  by (simp_all add: log_def)

lemma print_simps [simp]:
  "cwd (print m w) = cwd w" "run (print m w) = run w" "which (print m w) = which w"
  "now (print m w) = now w" "fs (print m w) = fs w"
  "trace (print m w) = trace w @ [Print m]"
  by (simp_all add: print_def)

lemma config_path_log [simp]: "config_path (log c w) = config_path w" "config_path (print m w) = config_path w"
  by (simp_all add: config_path_def)

lemma backup_path_log [simp]: "backup_path (log c w) = backup_path w" "backup_path (print m w) = backup_path w"
  by (simp_all add: backup_path_def)

lemma subprocess_run_world: "subprocess_run argv w = (r, w1) \<Longrightarrow> w1 = log (Run argv) w"
  by (auto simp: subprocess_run_def split: proc_result.splits if_splits)

lemma try_gitleaks_world: "try_gitleaks w = (r, w1) \<Longrightarrow> w1 = log (Run gitleaks_version_cmd) w"
  by (auto simp: try_gitleaks_def split: prod.splits sum.splits pyerror.splits
      dest: subprocess_run_world)

lemma try_pre_commit_world:
  "try_pre_commit w = (r, w1) \<Longrightarrow> w1 = log (Run pre_commit_version_cmd) w"
  by (auto simp: try_pre_commit_def split: prod.splits sum.splits pyerror.splits
      dest: subprocess_run_world)

lemma check_in_repo_world: "check_in_repo w = (r, w1) \<Longrightarrow> w1 = log (Run git_toplevel_cmd) w"
  by (auto simp: check_in_repo_def Let_def split: prod.splits sum.splits pyerror.splits
      dest: subprocess_run_world)

subsection \<open>Splitting and stripping\<close>

lemma split_ws_skip: "split_ws [] s = split_ws [] (dropWhile isspace s)"
  by (induction s) auto

lemma split_ws_token:
  "split_ws cur s =
     (if cur @ takeWhile (\<lambda>c. \<not> isspace c) s = [] then split_ws [] (dropWhile (\<lambda>c. \<not> isspace c) s)
      else (cur @ takeWhile (\<lambda>c. \<not> isspace c) s) # split_ws [] (dropWhile (\<lambda>c. \<not> isspace c) s))"
  by (induction s arbitrary: cur) auto

lemma py_split_first:
  "dropWhile isspace s \<noteq> [] \<Longrightarrow> \<exists>rest. py_split s = first_token s # rest"
proof -
  assume ne: "dropWhile isspace s \<noteq> []"
  let ?t = "dropWhile isspace s"
  have "\<not> isspace (hd ?t)" using ne by (simp add: hd_dropWhile)
  then have "takeWhile (\<lambda>c. \<not> isspace c) ?t \<noteq> []" using ne by (cases ?t) auto
  moreover have "py_split s = split_ws [] ?t"
    unfolding py_split_def by (rule split_ws_skip)
  ultimately show ?thesis
    by (subst (asm) split_ws_token) (simp add: first_token_def)
qed

lemma py_split_blank: "dropWhile isspace s = [] \<Longrightarrow> py_split s = []"
  using split_ws_skip[of s] by (simp add: py_split_def del: dropWhile_eq_Nil_conv)

lemma strip_decomp: "\<exists>ws. dropWhile isspace s = py_strip s @ ws \<and> (\<forall>c\<in>set ws. isspace c)"
proof -
  let ?t = "dropWhile isspace s"
  have "rev ?t = takeWhile isspace (rev ?t) @ dropWhile isspace (rev ?t)" by simp
  then have "?t = rev (dropWhile isspace (rev ?t)) @ rev (takeWhile isspace (rev ?t))"
    by (metis rev_append rev_rev_ident)
  moreover have "\<forall>c\<in>set (rev (takeWhile isspace (rev ?t))). isspace c"
    by (auto dest: set_takeWhileD)
  ultimately show ?thesis unfolding py_strip_def by blast
qed

lemma dropWhile_strip: "dropWhile isspace (py_strip s) = py_strip s"
proof (cases "py_strip s")
  case Nil then show ?thesis by simp
next
  case (Cons c cs)
  let ?t = "dropWhile isspace s"
  have pre: "prefix (py_strip s) ?t"
    unfolding py_strip_def
    by (metis prefix_def rev_append rev_rev_ident takeWhile_dropWhile_id)
  then obtain zs where t: "?t = c # cs @ zs" using Cons by (auto simp: prefix_def)
  have "\<not> isspace (hd ?t)" by (rule hd_dropWhile) (simp only: t, simp)
  then have "\<not> isspace c" by (metis t list.sel(1))
  then show ?thesis unfolding Cons by simp
qed

lemma first_token_strip: "first_token (py_strip s) = first_token s"
proof -
  obtain ws where d: "dropWhile isspace s = py_strip s @ ws" and ws: "\<forall>c\<in>set ws. isspace c"
    using strip_decomp by blast
  have "takeWhile (\<lambda>c. \<not> isspace c) (py_strip s @ ws) = takeWhile (\<lambda>c. \<not> isspace c) (py_strip s)"
  proof (cases "\<forall>c\<in>set (py_strip s). \<not> isspace c")
    case True
    have a: "takeWhile (\<lambda>c. \<not> isspace c) ws = []" using ws by (cases ws) auto
    have b: "takeWhile (\<lambda>c. \<not> isspace c) (py_strip s) = py_strip s"
      using True by (metis takeWhile_eq_all_conv)
    have c: "takeWhile (\<lambda>c. \<not> isspace c) (py_strip s @ ws) =
        py_strip s @ takeWhile (\<lambda>c. \<not> isspace c) ws"
      using True by (intro takeWhile_append2) blast
    show ?thesis by (metis a b c append_Nil2)
  next
    case False
    then show ?thesis by (auto simp: takeWhile_append1)
  qed
  then show ?thesis by (simp add: first_token_def dropWhile_strip d)
qed

lemma strip_blank_iff: "py_strip s = [] \<longleftrightarrow> dropWhile isspace s = []"
proof
  assume e: "py_strip s = []"
  obtain ws where d: "dropWhile isspace s = py_strip s @ ws" and ws: "\<forall>c\<in>set ws. isspace c"
    using strip_decomp by blast
  show "dropWhile isspace s = []"
  proof (rule ccontr)
    assume ne: "dropWhile isspace s \<noteq> []"
    then have "\<not> isspace (hd (dropWhile isspace s))" by (rule hd_dropWhile)
    moreover have "hd (dropWhile isspace s) \<in> set ws" using ne d e by (cases ws) auto
    ultimately show False using ws by blast
  qed
next
  assume "dropWhile isspace s = []"
  then show "py_strip s = []" by (simp only: py_strip_def rev.simps dropWhile.simps)
qed

lemma first_token_empty_iff: "first_token s = [] \<longleftrightarrow> dropWhile isspace s = []"
proof
  assume "first_token s = []"
  show "dropWhile isspace s = []"
  proof (rule ccontr)
    assume ne: "dropWhile isspace s \<noteq> []"
    then have "\<not> isspace (hd (dropWhile isspace s))" by (simp add: hd_dropWhile)
    then have "first_token s \<noteq> []" using ne unfolding first_token_def
      by (cases "dropWhile isspace s") auto
    with \<open>first_token s = []\<close> show False by simp
  qed
next
  assume "dropWhile isspace s = []"
  then show "first_token s = []" by (simp only: first_token_def takeWhile.simps)
qed

lemma py_index_split_strip:
  "py_index (py_split (py_strip out)) 0 =
     (if first_token out = [] then Inl IndexError else Inr (first_token out))"
proof (cases "first_token out = []")
  case True
  then have "dropWhile isspace (py_strip out) = []"
    by (simp add: first_token_empty_iff dropWhile_strip strip_blank_iff)
  then show ?thesis using True by (simp add: py_split_blank py_index_def)
next
  case False
  then have "dropWhile isspace (py_strip out) \<noteq> []"
    by (simp add: first_token_empty_iff dropWhile_strip strip_blank_iff)
  from py_split_first[OF this] obtain rest where
    "py_split (py_strip out) = first_token (py_strip out) # rest" by blast
  then show ?thesis using False by (simp add: py_index_def first_token_strip)
qed

lemma isspace_space: "isspace CHR '' ''"
  by (simp add: isspace_def)

lemma no_space_char: "\<forall>c\<in>set a. \<not> isspace c \<Longrightarrow> CHR '' '' \<notin> set a"
  using isspace_space by blast

lemma second_token_fields:
  assumes s: "py_strip out = a @ '' '' @ b @ r"
    and a: "\<forall>c\<in>set a. \<not> isspace c" and b: "\<forall>c\<in>set b. \<not> isspace c"
    and ne: "b \<noteq> []" and r: "r = [] \<or> hd r = CHR '' ''"
  shows "second_token out = b"
proof -
  obtain ws where d: "dropWhile isspace out = py_strip out @ ws" and ws: "\<forall>c\<in>set ws. isspace c"
    using strip_decomp by blast
  let ?rest = "r @ ws"
  have rest: "takeWhile (\<lambda>c. \<not> isspace c) ?rest = []"
  proof (cases ?rest)
    case Nil then show ?thesis by simp
  next
    case (Cons x xs)
    have "isspace x"
    proof (cases r)
      case Nil
      then show ?thesis using Cons ws by auto
    next
      case (Cons y ys)
      then show ?thesis using r \<open>r @ ws = x # xs\<close> isspace_space by auto
    qed
    then show ?thesis using Cons by simp
  qed
  have d1: "dropWhile (\<lambda>c. \<not> isspace c) (a @ CHR '' '' # b @ ?rest) = CHR '' '' # b @ ?rest"
    using a isspace_space by (simp add: dropWhile_append3)
  have d2: "dropWhile isspace (CHR '' '' # b @ ?rest) = b @ ?rest"
    using b ne isspace_space by (cases b) auto
  have t: "takeWhile (\<lambda>c. \<not> isspace c) (b @ ?rest) = b @ takeWhile (\<lambda>c. \<not> isspace c) ?rest"
    using b by (intro takeWhile_append2) blast
  have "dropWhile isspace out = a @ CHR '' '' # b @ ?rest" using d s by simp
  then show ?thesis
    unfolding second_token_def first_token_def by (simp only: d1 d2 t rest append_Nil2)
qed

lemma split_on_no_sep: "sep \<notin> set a \<Longrightarrow> split_on sep cur a = [cur @ a]"
  by (induction a arbitrary: cur) auto

lemma split_on_field: "sep \<notin> set a \<Longrightarrow> split_on sep cur (a @ sep # rest) = (cur @ a) # split_on sep [] rest"
  by (induction a arbitrary: cur) auto

lemma split_on_second:
  assumes "sep \<notin> set a" "sep \<notin> set b" "r = [] \<or> hd r = sep"
  shows "\<exists>more. split_on sep [] (a @ sep # b @ r) = a # b # more"
proof (cases r)
  case Nil
  then show ?thesis using assms by (simp add: split_on_field split_on_no_sep)
next
  case (Cons c cs)
  then have "r = sep # cs" using assms by simp
  then show ?thesis using assms(1,2) by (simp add: split_on_field)
qed

lemma py_in_sublist: "py_in sub s = sublist sub s"
  by (induction s) (auto simp: sublist_Cons_right)

lemma py_in_iff: "py_in sub s \<longleftrightarrow> (\<exists>a b. s = a @ sub @ b)"
  by (simp add: py_in_sublist sublist_def)

subsection \<open>Paths and the written text\<close>

lemma path_join_inject: "path_join d a = path_join d b \<longleftrightarrow> a = b"
  by (simp add: path_join_def)

lemma config_backup_distinct: "config_path w \<noteq> backup_path w"
  by (simp add: config_path_def backup_path_def path_join_inject)

lemma backup_path_name: "backup_path w = config_path w @ ''-'' @ strftime (now w)"
  by (simp add: backup_path_def config_path_def path_join_def)

lemma strftime_shape:
  "length (strftime t) = 16 \<and> strftime t ! 8 = CHR ''T'' \<and> strftime t ! 15 = CHR ''Z''"
  by (simp add: strftime_def pad2_def pad4_def nth_append)

lemma pre_commit_config_marker: "py_in ''id: gitleaks'' (pre_commit_config gv)"
proof -
  have "pre_commit_config gv =
      (''repos:\<newline>  - repo: https://github.com/gitleaks/gitleaks\<newline>    rev: v'' @ gv @
        ''\<newline>    hooks:\<newline>      - '') @ ''id: gitleaks'' @ ''\<newline>''"
    by (simp add: pre_commit_config_def)
  then show ?thesis unfolding py_in_iff by blast
qed

lemma pre_commit_config_rev: "py_in (''rev: v'' @ gv @ ''\<newline>'') (pre_commit_config gv)"
proof -
  have "pre_commit_config gv =
      ''repos:\<newline>  - repo: https://github.com/gitleaks/gitleaks\<newline>    '' @
      (''rev: v'' @ gv @ ''\<newline>'') @ ''    hooks:\<newline>      - id: gitleaks\<newline>''"
    by (simp add: pre_commit_config_def)
  then show ?thesis unfolding py_in_iff by blast
qed

subsection \<open>The probes\<close>

lemma try_gitleaks_ok:
  "run w gitleaks_version_cmd = Exited 0 out \<Longrightarrow>
   try_gitleaks w =
     (if first_token out = [] then Inl IndexError
      else Inr \<lparr>status = True, version = py_removeprefix ''v'' (first_token out)\<rparr>,
      log (Run gitleaks_version_cmd) w)"
  by (simp add: try_gitleaks_def subprocess_run_def py_index_split_strip)

lemma try_pre_commit_ok:
  "run w pre_commit_version_cmd = Exited 0 out \<Longrightarrow>
   try_pre_commit w =
     (case py_index (py_split_sep CHR '' '' (py_strip out)) 1 of
        Inl e \<Rightarrow> Inl e
      | Inr tok \<Rightarrow> Inr \<lparr>status = True, version = tok\<rparr>,
      log (Run pre_commit_version_cmd) w)"
  by (simp add: try_pre_commit_def subprocess_run_def split: sum.splits)

lemma check_commands_frame:
  "check_commands w = (r, w1) \<Longrightarrow> fs w1 = fs w \<and> config_actions w1 = config_actions w"
  by (auto simp: check_commands_def Let_def config_actions_def install_cmd_def
      gitleaks_version_cmd_def pre_commit_version_cmd_def
      split: if_splits prod.splits sum.splits
      dest!: try_gitleaks_world try_pre_commit_world)

lemma check_commands_fields:
  assumes "which w ''gitleaks'' \<noteq> None" and "which w ''pre-commit'' \<noteq> None"
    and "fst (check_commands w) = Inr cs"
  shows "(\<forall>out. run w gitleaks_version_cmd = Exited 0 out \<longrightarrow>
            status (gitleaks cs) \<and> first_token out \<noteq> [] \<and>
            version (gitleaks cs) = py_removeprefix ''v'' (first_token out))
       \<and> (\<forall>out a b r. run w pre_commit_version_cmd = Exited 0 out \<and>
            py_strip out = a @ '' '' @ b @ r \<and> CHR '' '' \<notin> set a \<and> CHR '' '' \<notin> set b \<and>
            (r = [] \<or> hd r = CHR '' '') \<longrightarrow>
            status (pre_commit cs) \<and> version (pre_commit cs) = b)"
proof -
  obtain w' where cc: "check_commands w = (Inr cs, w')"
    using assms(3) by (cases "check_commands w") auto
  show ?thesis
  proof (intro conjI allI impI)
    fix out assume r: "run w gitleaks_version_cmd = Exited 0 out"
    with assms(1,2) cc show "status (gitleaks cs)" "first_token out \<noteq> []"
      "version (gitleaks cs) = py_removeprefix ''v'' (first_token out)"
      by (auto simp: check_commands_def try_gitleaks_ok Let_def
          split: if_splits prod.splits sum.splits)
  next
    fix out a b r
    assume h: "run w pre_commit_version_cmd = Exited 0 out \<and>
              py_strip out = a @ '' '' @ b @ r \<and> CHR '' '' \<notin> set a \<and> CHR '' '' \<notin> set b \<and>
              (r = [] \<or> hd r = CHR '' '')"
    then obtain more where "split_on CHR '' '' [] (py_strip out) = a # b # more"
      using split_on_second[of "CHR '' ''" a b r] by auto
    then have idx: "py_index (py_split_sep CHR '' '' (py_strip out)) 1 = Inr b"
      by (simp add: py_split_sep_def py_index_def)
    then have t: "try_pre_commit wx =
        (Inr \<lparr>status = True, version = b\<rparr>, log (Run pre_commit_version_cmd) wx)"
      if "run wx = run w" for wx
    proof -
      from that h have "run wx pre_commit_version_cmd = Exited 0 out" by simp
      from try_pre_commit_ok[OF this] idx show ?thesis by simp
    qed
    show "status (pre_commit cs)" "version (pre_commit cs) = b"
      using assms(1,2) cc t
      by (auto simp: check_commands_def Let_def split: if_splits prod.splits sum.splits
          dest!: try_gitleaks_world)
  qed
qed

subsection \<open>The configuration writer\<close>

lemma already_configured_step:
  assumes "fs w (config_path w) = Some (File c)" and "py_in ''id: gitleaks'' c"
    and "config_secscan pcv gv False w = (r, w')"
  shows "fs w' = fs w \<and> w' = w\<lparr>trace := trace w'\<rparr> \<and>
         mutations w' = mutations w @ [Run install_cmd]"
  using assms
  by (auto simp: config_secscan_def path_exists_def read_text_def Let_def mutations_def
      subprocess_run_def log_def print_def
      split: if_splits proc_result.splits)

text \<open>After a real run that returned normally the configuration file declares the
  hook, whatever the world it started from.\<close>

lemma real_run_then_configured:
  "config_secscan pcv gv False w = (Inr (), w') \<Longrightarrow>
     \<exists>c. fs w' (config_path w) = Some (File c) \<and> py_in ''id: gitleaks'' c"
  using pre_commit_config_marker[of gv]
  by (auto simp: config_secscan_def config_secscan_write_def path_exists_def read_text_def
        shutil_move_def write_text_def Let_def subprocess_run_def log_def print_def
        split: if_splits option.splits node.splits proc_result.splits)

lemma install_failure_core:
  assumes "run w install_cmd = Exited rc out" and "rc \<noteq> 0"
    and "config_secscan pcv gv False w = (r, w')"
    and "Run install_cmd \<in> set (calls_since w w')"
  shows "r = Inl CalledProcessError
       \<and> (\<exists>before. calls_since w w' = before @ [Run install_cmd] \<and>
             Run install_cmd \<notin> set before \<and>
             (fs w' = fs w \<or> WriteText (config_path w) (pre_commit_config gv) \<in> set before))
       \<and> (\<exists>c. fs w' (config_path w) = Some (File c) \<and> py_in ''id: gitleaks'' c \<and>
             (fs w' = fs w \<or> c = pre_commit_config gv))"
  using assms pre_commit_config_marker[of gv]
  by (auto simp: config_secscan_def config_secscan_write_def path_exists_def read_text_def
        shutil_move_def write_text_def Let_def calls_since_def subprocess_run_def log_def
        print_def install_cmd_def
        split: if_splits option.splits node.splits)

section \<open>Simulation mode\<close>

text \<open>
  C1. A dry run of \<open>config_secscan\<close>, from any world and whatever it returns, changes
  nothing but the log: the filesystem is the one it started from, no move, write or
  hook installation is logged, and every call it adds to the log is the read of the
  configuration file or a print. This covers the file being absent, present with the
  hook marker and present without it, where the run also returns normally; when a
  directory sits at the path the read raises and still nothing was changed.
\<close>

theorem dry_run_no_effect:
  "config_secscan pcv gv True w = (r, w') \<Longrightarrow>
     w' = w\<lparr>trace := trace w'\<rparr> \<and> fs w' = fs w \<and> prefix (trace w) (trace w')
     \<and> mutations w' = mutations w
     \<and> list_all (\<lambda>c. c = ReadText (config_path w) \<or> (\<exists>m. c = Print m)) (calls_since w w')
     \<and> (fs w (config_path w) \<noteq> Some Dir \<longrightarrow> r = Inr ())"
  by (auto simp: config_secscan_def path_exists_def read_text_def Let_def mutations_def
      calls_since_def log_def print_def
      split: if_splits option.splits node.splits)

theorem dry_run_no_effect_witness:
  "fs (snd (config_secscan ''3.0.0'' ''8.18.2'' True sample_world)) = fs sample_world
   \<and> calls_since sample_world (snd (config_secscan ''3.0.0'' ''8.18.2'' True sample_world)) =
       [Print (DryWouldWrite ''/repo/.pre-commit-config.yaml'' (pre_commit_config ''8.18.2'')),
        Print DryWouldRunInstall]
   \<and> fs (snd (config_secscan ''3.0.0'' ''8.18.2'' True (with_config ''repos: []'' sample_world))) =
       fs (with_config ''repos: []'' sample_world)
   \<and> mutations (snd (config_secscan ''3.0.0'' ''8.18.2'' True (with_config ''repos: []'' sample_world))) = []
   \<and> fs (snd (config_secscan ''3.0.0'' ''8.18.2'' True
         (with_config (pre_commit_config ''8.18.2'') sample_world))) =
       fs (with_config (pre_commit_config ''8.18.2'') sample_world)
   \<and> mutations (snd (config_secscan ''3.0.0'' ''8.18.2'' True
         (with_config (pre_commit_config ''8.18.2'') sample_world))) = []"
  using dry_run_no_effect[OF surjective_pairing, of "''3.0.0''" "''8.18.2''" sample_world]
    dry_run_no_effect[OF surjective_pairing, of "''3.0.0''" "''8.18.2''" "with_config ''repos: []'' sample_world"]
    dry_run_no_effect[OF surjective_pairing, of "''3.0.0''" "''8.18.2''"
      "with_config (pre_commit_config ''8.18.2'') sample_world"]
  by (simp add: eval_defs mutations_def calls_since_def)

section \<open>The environment check\<close>

text \<open>
  What \<open>check_in_repo\<close> computes: it returns true exactly when
  \<open>git rev-parse --show-toplevel\<close> exits with status 0 and the resolved working directory
  equals the resolved output after \<open>strip()\<close>; it returns false when the resolved working
  directory lies strictly below that path, and when the query exits with a non-zero
  status.
\<close>

lemma check_in_repo_stripped_iff:
  "(fst (check_in_repo w) = Inr True \<longleftrightarrow>
      (\<exists>out. run w git_toplevel_cmd = Exited 0 out \<and> resolve w (cwd w) = resolve w (py_strip out)))
   \<and> (\<forall>out. run w git_toplevel_cmd = Exited 0 out \<and> strict_prefix (resolve w (py_strip out)) (resolve w (cwd w))
        \<longrightarrow> fst (check_in_repo w) = Inr False)
   \<and> (\<forall>rc out. run w git_toplevel_cmd = Exited rc out \<and> rc \<noteq> 0 \<longrightarrow> fst (check_in_repo w) = Inr False)"
  by (auto simp: check_in_repo_def subprocess_run_def split: proc_result.splits)

text \<open>
  C2. \<open>check_in_repo\<close> is to return true exactly when the query succeeds and the
  resolved working directory equals the resolved directory the query reports. The
  code removes all surrounding whitespace from the output, not only the line
  terminator, so a directory name that ends in whitespace is cut short: in a repository
  whose top-level directory is \<open>/repo\<close> followed by a space, started in that directory,
  the query succeeds and reports the working directory itself, the two resolve to the
  same path, and \<open>check_in_repo\<close> returns false.
\<close>

theorem check_in_repo_strips_directory_name:
  "run trailing_space_world git_toplevel_cmd = Exited 0 ''/repo \<newline>''
   \<and> git_reported_path ''/repo \<newline>'' = ''/repo ''
   \<and> cwd trailing_space_world = ''/repo ''
   \<and> resolve trailing_space_world (cwd trailing_space_world) =
       resolve trailing_space_world (git_reported_path ''/repo \<newline>'')
   \<and> py_strip ''/repo \<newline>'' = ''/repo''
   \<and> fst (check_in_repo trailing_space_world) = Inr False"
  by (simp add: eval_defs trailing_space_world_def git_reported_path_def)

section \<open>The tool probe: version strings\<close>

text \<open>
  C3, as the code has it. When both executables are found and \<open>check_commands\<close> returns
  a result: if \<open>gitleaks version\<close> exits with status 0, the scanner is reported installed
  and its version is the first whitespace-separated token of the output with a leading
  \<open>v\<close> stripped; if \<open>pre-commit --version\<close> exits with status 0, the first two tokens of
  its output are separated by one space, and the second token is followed by a space or
  the end of the stripped output and carries no leading \<open>v\<close>, the hook manager is
  reported installed and its version is the second whitespace-separated token of the
  output, with a leading \<open>v\<close> stripped. Nothing is stated for other outputs of the hook
  manager.
\<close>

theorem check_commands_versions:
  assumes "which w ''gitleaks'' \<noteq> None" and "which w ''pre-commit'' \<noteq> None"
    and "fst (check_commands w) = Inr cs"
  shows "(\<forall>out. run w gitleaks_version_cmd = Exited 0 out \<longrightarrow>
            status (gitleaks cs) \<and> first_token out \<noteq> [] \<and>
            version (gitleaks cs) = py_removeprefix ''v'' (first_token out))
       \<and> (\<forall>out a b r. run w pre_commit_version_cmd = Exited 0 out \<and>
            py_strip out = a @ '' '' @ b @ r \<and>
            (\<forall>c\<in>set a. \<not> isspace c) \<and> (\<forall>c\<in>set b. \<not> isspace c) \<and> b \<noteq> [] \<and>
            (r = [] \<or> hd r = CHR '' '') \<and> \<not> prefix ''v'' b \<longrightarrow>
            status (pre_commit cs) \<and> second_token out = b \<and>
            version (pre_commit cs) = py_removeprefix ''v'' (second_token out))"
proof (intro conjI allI impI)
  fix out assume "run w gitleaks_version_cmd = Exited 0 out"
  with check_commands_fields[OF assms]
  show "status (gitleaks cs)" "first_token out \<noteq> []"
    "version (gitleaks cs) = py_removeprefix ''v'' (first_token out)"
    by blast+
next
  fix out a b r
  assume h: "run w pre_commit_version_cmd = Exited 0 out \<and>
            py_strip out = a @ '' '' @ b @ r \<and>
            (\<forall>c\<in>set a. \<not> isspace c) \<and> (\<forall>c\<in>set b. \<not> isspace c) \<and> b \<noteq> [] \<and>
            (r = [] \<or> hd r = CHR '' '') \<and> \<not> prefix ''v'' b"
  then have sp: "CHR '' '' \<notin> set a" "CHR '' '' \<notin> set b"
    by (auto dest: no_space_char)
  from h have st: "second_token out = b"
    by (intro second_token_fields[of out a b r]) auto
  from check_commands_fields[OF assms, THEN conjunct2, rule_format, of out a b r] h sp
  have v: "status (pre_commit cs) \<and> version (pre_commit cs) = b" by blast
  from h have "py_removeprefix ''v'' b = b" by (simp add: py_removeprefix_def)
  with v st show "status (pre_commit cs)" "second_token out = b"
    "version (pre_commit cs) = py_removeprefix ''v'' (second_token out)"
    by simp_all
qed

theorem check_commands_versions_witness:
  "which sample_world ''gitleaks'' \<noteq> None \<and> which sample_world ''pre-commit'' \<noteq> None
   \<and> fst (check_commands sample_world) =
       Inr \<lparr>gitleaks = \<lparr>status = True, version = ''8.18.2''\<rparr>,
            pre_commit = \<lparr>status = True, version = ''3.0.0''\<rparr>\<rparr>
   \<and> run sample_world gitleaks_version_cmd = Exited 0 ''v8.18.2\<newline>''
   \<and> py_removeprefix ''v'' (first_token ''v8.18.2\<newline>'') = ''8.18.2''
   \<and> run sample_world pre_commit_version_cmd = Exited 0 ''pre-commit 3.0.0\<newline>''
   \<and> py_strip ''pre-commit 3.0.0\<newline>'' = ''pre-commit'' @ '' '' @ ''3.0.0'' @ ''''
   \<and> filter isspace ''pre-commit'' = [] \<and> filter isspace ''3.0.0'' = []
   \<and> \<not> prefix ''v'' ''3.0.0''
   \<and> second_token ''pre-commit 3.0.0\<newline>'' = ''3.0.0''
   \<and> py_removeprefix ''v'' (second_token ''pre-commit 3.0.0\<newline>'') = ''3.0.0''"
  using check_commands_versions[of sample_world
      "\<lparr>gitleaks = \<lparr>status = True, version = ''8.18.2''\<rparr>,
        pre_commit = \<lparr>status = True, version = ''3.0.0''\<rparr>\<rparr>",
      THEN conjunct2, rule_format,
      of "''pre-commit 3.0.0\<newline>''" "''pre-commit''" "''3.0.0''" "''''"]
  by (simp add: eval_defs first_token_def second_token_def)

text \<open>
  The claim as written fails in four worlds. With the hook manager printing
  \<open>pre-commit 3.0.0\<close> the code reports \<open>3.0.0\<close>, and the first token with a leading \<open>v\<close>
  stripped is \<open>pre-commit\<close>. With the scanner found and its version command succeeding
  but the hook manager absent, the scanner's returned version is empty. With the hook
  manager found and its version command succeeding but the scanner absent, the hook
  manager's returned version is empty. With the hook manager printing \<open>3.0.0\<close> alone,
  \<open>check_commands\<close> raises IndexError and returns no version for the scanner either.
\<close>

theorem pre_commit_version_counterexample:
  "run sample_world pre_commit_version_cmd = Exited 0 ''pre-commit 3.0.0\<newline>''
   \<and> fst (check_commands sample_world) =
       Inr \<lparr>gitleaks = \<lparr>status = True, version = ''8.18.2''\<rparr>,
            pre_commit = \<lparr>status = True, version = ''3.0.0''\<rparr>\<rparr>
   \<and> spec_version ''pre-commit 3.0.0\<newline>'' = ''pre-commit''
   \<and> ''3.0.0'' \<noteq> spec_version ''pre-commit 3.0.0\<newline>''
   \<and> which no_pre_commit_world ''gitleaks'' = Some ''/usr/bin/gitleaks''
   \<and> run no_pre_commit_world gitleaks_version_cmd = Exited 0 ''v8.18.2\<newline>''
   \<and> spec_version ''v8.18.2\<newline>'' = ''8.18.2''
   \<and> fst (check_commands no_pre_commit_world) =
       Inr \<lparr>gitleaks = \<lparr>status = False, version = ''''\<rparr>,
            pre_commit = \<lparr>status = False, version = ''''\<rparr>\<rparr>
   \<and> which no_gitleaks_world ''pre-commit'' = Some ''/usr/bin/pre-commit''
   \<and> run no_gitleaks_world pre_commit_version_cmd = Exited 0 ''pre-commit 3.0.0\<newline>''
   \<and> fst (check_commands no_gitleaks_world) =
       Inr \<lparr>gitleaks = \<lparr>status = False, version = ''''\<rparr>,
            pre_commit = \<lparr>status = False, version = ''''\<rparr>\<rparr>
   \<and> which bare_version_world ''gitleaks'' = Some ''/usr/bin/gitleaks''
   \<and> run bare_version_world gitleaks_version_cmd = Exited 0 ''v8.18.2\<newline>''
   \<and> fst (check_commands bare_version_world) = Inl IndexError"
  by (simp add: eval_defs first_token_def spec_version_def no_pre_commit_world_def
      no_gitleaks_world_def bare_version_world_def)

section \<open>The configuration writer in real mode\<close>

text \<open>
  C4. In real mode, when the configuration file exists and its text contains
  \<open>id: gitleaks\<close>, \<open>config_secscan\<close> leaves the filesystem as it was, whatever the
  detected version: nothing but the log changes, and the only changing call it adds is
  the one \<open>pre-commit install\<close>. Hence a second run from the resulting world again
  leaves the filesystem, and the text of the configuration file, as they were before
  the first.
\<close>

theorem already_configured_no_mutation:
  assumes "fs w (config_path w) = Some (File c)" and "py_in ''id: gitleaks'' c"
    and "config_secscan pcv gv False w = (r, w')"
  shows "fs w' = fs w \<and> w' = w\<lparr>trace := trace w'\<rparr>
       \<and> mutations w' = mutations w @ [Run install_cmd]
       \<and> (\<forall>r2 w2. config_secscan pcv gv False w' = (r2, w2) \<longrightarrow>
            fs w2 = fs w \<and> fs w2 (config_path w2) = Some (File c) \<and>
            mutations w2 = mutations w' @ [Run install_cmd])"
proof -
  have one: "fs w' = fs w \<and> w' = w\<lparr>trace := trace w'\<rparr> \<and>
         mutations w' = mutations w @ [Run install_cmd]"
    using assms by (rule already_configured_step)
  then have "cwd w' = cwd w" by (metis world.select_convs(1) world.surjective world.update_convs(8))
  then have p: "config_path w' = config_path w" by (simp add: config_path_def)
  have two: "fs w2 = fs w \<and> fs w2 (config_path w2) = Some (File c) \<and>
            mutations w2 = mutations w' @ [Run install_cmd]"
    if "config_secscan pcv gv False w' = (r2, w2)" for r2 w2
  proof -
    have "fs w' (config_path w') = Some (File c)" using one p assms(1) by simp
    from already_configured_step[OF this assms(2) that]
    have s: "fs w2 = fs w' \<and> w2 = w'\<lparr>trace := trace w2\<rparr> \<and> mutations w2 = mutations w' @ [Run install_cmd]" .
    then have "cwd w2 = cwd w'" by (metis world.select_convs(1) world.surjective world.update_convs(8))
    then have "config_path w2 = config_path w" using p by (simp add: config_path_def)
    then show ?thesis using s one assms(1) by simp
  qed
  show ?thesis using one two by blast
qed

theorem already_configured_no_mutation_witness:
  "fs (with_config (pre_commit_config ''8.18.2'') sample_world)
      (config_path (with_config (pre_commit_config ''8.18.2'') sample_world)) =
     Some (File (pre_commit_config ''8.18.2''))
   \<and> py_in ''id: gitleaks'' (pre_commit_config ''8.18.2'')
   \<and> fst (config_secscan ''3.0.0'' ''8.18.2'' False
        (with_config (pre_commit_config ''8.18.2'') sample_world)) = Inr ()
   \<and> fs (snd (config_secscan ''3.0.0'' ''8.18.2'' False
        (with_config (pre_commit_config ''8.18.2'') sample_world))) =
       fs (with_config (pre_commit_config ''8.18.2'') sample_world)
   \<and> mutations (snd (config_secscan ''3.0.0'' ''8.18.2'' False
        (with_config (pre_commit_config ''8.18.2'') sample_world))) = [Run install_cmd]
   \<and> fs (snd (config_secscan ''3.0.0'' ''8.18.2'' False
        (snd (config_secscan ''3.0.0'' ''8.18.2'' False
          (with_config (pre_commit_config ''8.18.2'') sample_world))))) =
       fs (with_config (pre_commit_config ''8.18.2'') sample_world)"
  using already_configured_no_mutation[OF _ _ surjective_pairing,
      of "with_config (pre_commit_config ''8.18.2'') sample_world" "pre_commit_config ''8.18.2''"
         "''3.0.0''" "''8.18.2''"]
  by (simp add: eval_defs mutations_def)

text \<open>
  C5. In real mode, when the configuration file exists, its text lacks
  \<open>id: gitleaks\<close> and no directory occupies the backup path, \<open>config_secscan\<close> first
  moves the file to the backup path and then writes the new configuration, before
  installing the hooks. Afterwards the backup path holds the original text verbatim,
  the configuration file holds the generated text, nothing else in the filesystem has
  changed, and the generated text contains \<open>id: gitleaks\<close> and \<open>rev: v\<close> followed by
  exactly the detected version and the end of the line.
\<close>

theorem backup_then_write:
  assumes "fs w (config_path w) = Some (File c)" and "\<not> py_in ''id: gitleaks'' c"
    and "fs w (backup_path w) \<noteq> Some Dir"
    and "config_secscan pcv gv False w = (r, w')"
  shows "fs w' = (fs w)(backup_path w \<mapsto> File c, config_path w \<mapsto> File (pre_commit_config gv))
       \<and> fs w' (backup_path w) = Some (File c)
       \<and> fs w' (config_path w) = Some (File (pre_commit_config gv))
       \<and> py_in ''id: gitleaks'' (pre_commit_config gv)
       \<and> py_in (''rev: v'' @ gv @ ''\<newline>'') (pre_commit_config gv)
       \<and> mutations w' = mutations w @
           [Move (config_path w) (backup_path w),
            WriteText (config_path w) (pre_commit_config gv),
            Run install_cmd]"
proof -
  have d: "config_path w \<noteq> backup_path w" by (rule config_backup_distinct)
  have "fs w' = (fs w)(backup_path w \<mapsto> File c, config_path w \<mapsto> File (pre_commit_config gv))
      \<and> mutations w' = mutations w @
           [Move (config_path w) (backup_path w),
            WriteText (config_path w) (pre_commit_config gv),
            Run install_cmd]"
    using assms d
    by (auto simp: config_secscan_def config_secscan_write_def path_exists_def read_text_def
        shutil_move_def write_text_def Let_def mutations_def subprocess_run_def log_def print_def
        split: if_splits proc_result.splits option.splits node.splits)
  then show ?thesis using d pre_commit_config_marker pre_commit_config_rev by auto
qed

theorem backup_then_write_witness:
  "fs (with_config ''repos: []'' sample_world) (config_path (with_config ''repos: []'' sample_world)) =
     Some (File ''repos: []'')
   \<and> \<not> py_in ''id: gitleaks'' ''repos: []''
   \<and> fs (with_config ''repos: []'' sample_world) (backup_path (with_config ''repos: []'' sample_world)) \<noteq> Some Dir
   \<and> fst (config_secscan ''3.0.0'' ''8.18.2'' False (with_config ''repos: []'' sample_world)) = Inr ()
   \<and> fs (snd (config_secscan ''3.0.0'' ''8.18.2'' False (with_config ''repos: []'' sample_world)))
        ''/repo/.pre-commit-config.yaml-20250909T173000Z'' = Some (File ''repos: []'')
   \<and> fs (snd (config_secscan ''3.0.0'' ''8.18.2'' False (with_config ''repos: []'' sample_world)))
        ''/repo/.pre-commit-config.yaml'' = Some (File (pre_commit_config ''8.18.2''))"
  using backup_then_write[OF _ _ _ surjective_pairing,
      of "with_config ''repos: []'' sample_world" "''repos: []''" "''3.0.0''" "''8.18.2''"]
  by (simp add: eval_defs)

section \<open>The backup path\<close>

text \<open>
  C6. The backup path is the path of the configuration file, a hyphen and a
  sixteen-character stamp with a \<open>T\<close> in the middle and a \<open>Z\<close> at the end (the two
  auxiliary facts about the path and the stamp above). The stamp is formatted from
  \<open>datetime.now()\<close>, the local time, not from the UTC time: on a host five and a half
  hours ahead of UTC, at 12:00:00 UTC on 9 September 2025, the backup is named with
  17:30:00 and a \<open>Z\<close>, and differs from the name with the UTC stamp.
\<close>

theorem backup_path_local_time:
  "backup_path sample_world = ''/repo/.pre-commit-config.yaml-20250909T173000Z''
   \<and> strftime (utcnow sample_world) = ''20250909T120000Z''
   \<and> backup_path sample_world \<noteq> config_path sample_world @ ''-'' @ strftime (utcnow sample_world)"
  by (simp add: eval_defs)

section \<open>The tool probe: first tool absent\<close>

text \<open>
  C7. When \<open>shutil.which("gitleaks")\<close> finds nothing, \<open>check_commands\<close> returns both
  tools as not installed with empty version strings, and the only call it has made is
  that one lookup: the second tool is neither looked up nor run.
\<close>

theorem check_commands_gitleaks_absent:
  "which w ''gitleaks'' = None \<Longrightarrow>
     check_commands w = (Inr not_installed, w\<lparr>trace := trace w @ [Which ''gitleaks'']\<rparr>)
     \<and> status (gitleaks not_installed) = False \<and> version (gitleaks not_installed) = ''''
     \<and> status (pre_commit not_installed) = False \<and> version (pre_commit not_installed) = ''''"
  by (simp add: check_commands_def log_def not_installed_def)

theorem check_commands_gitleaks_absent_witness:
  "which (sample_world\<lparr>which := \<lambda>n. None\<rparr>) ''gitleaks'' = None
   \<and> check_commands (sample_world\<lparr>which := \<lambda>n. None\<rparr>) =
       (Inr not_installed, sample_world\<lparr>which := \<lambda>n. None, trace := [Which ''gitleaks'']\<rparr>)"
  using check_commands_gitleaks_absent[of "sample_world\<lparr>which := \<lambda>n. None\<rparr>"]
  by (simp add: sample_world_def)

section \<open>Exit codes\<close>

text \<open>
  C8. The script exits with code 1 exactly when \<open>check_in_repo\<close> returns false, or it
  returns true and \<open>check_commands\<close> reports one of the two tools with a false status
  (absent, or its version command failed). In those runs the filesystem is unchanged
  and no call of \<open>config_secscan\<close> (read of the configuration file, move, write, hook
  installation) is logged. It exits with code 0 exactly when both checks pass and
  \<open>config_secscan\<close>, as a dry run for \<open>--dry-run\<close> and a real run for \<open>--setup\<close>, returns
  normally.
\<close>

theorem main_exit_codes:
  "(fst (main args w) = Exit 1 \<longleftrightarrow>
      fst (check_in_repo w) = Inr False \<or>
      (\<exists>w1 cs w2. check_in_repo w = (Inr True, w1) \<and> check_commands w1 = (Inr cs, w2) \<and>
         \<not> (status (gitleaks cs) \<and> status (pre_commit cs))))
   \<and> (fst (main args w) = Exit 1 \<longrightarrow>
        fs (snd (main args w)) = fs w \<and> config_actions (snd (main args w)) = config_actions w)
   \<and> (fst (main args w) = Exit 0 \<longleftrightarrow>
        (\<exists>w1 cs w2 w3. check_in_repo w = (Inr True, w1) \<and> check_commands w1 = (Inr cs, w2) \<and>
           status (gitleaks cs) \<and> status (pre_commit cs) \<and>
           config_secscan (version (pre_commit cs)) (version (gitleaks cs)) (args = DryRun) w2 =
             (Inr (), w3)))"
proof (intro conjI)
  show "fst (main args w) = Exit 1 \<longleftrightarrow>
      fst (check_in_repo w) = Inr False \<or>
      (\<exists>w1 cs w2. check_in_repo w = (Inr True, w1) \<and> check_commands w1 = (Inr cs, w2) \<and>
         \<not> (status (gitleaks cs) \<and> status (pre_commit cs)))"
    by (cases args) (auto simp: main_def Let_def split: prod.splits sum.splits if_splits)
next
  show "fst (main args w) = Exit 1 \<longrightarrow>
        fs (snd (main args w)) = fs w \<and> config_actions (snd (main args w)) = config_actions w"
    by (cases args)
      (auto simp: main_def Let_def config_actions_def git_toplevel_cmd_def install_cmd_def
        split: prod.splits sum.splits if_splits
        dest!: check_in_repo_world check_commands_frame)
next
  show "fst (main args w) = Exit 0 \<longleftrightarrow>
        (\<exists>w1 cs w2 w3. check_in_repo w = (Inr True, w1) \<and> check_commands w1 = (Inr cs, w2) \<and>
           status (gitleaks cs) \<and> status (pre_commit cs) \<and>
           config_secscan (version (pre_commit cs)) (version (gitleaks cs)) (args = DryRun) w2 =
             (Inr (), w3))"
    by (cases args) (auto simp: main_def Let_def split: prod.splits sum.splits if_splits)
qed

theorem main_exit_codes_witness:
  "fst (main Setup sample_world) = Exit 0
   \<and> fst (main DryRun sample_world) = Exit 0
   \<and> fst (check_in_repo subdir_world) = Inr False
   \<and> fst (main Setup subdir_world) = Exit 1
   \<and> fs (snd (main Setup subdir_world)) = fs subdir_world
   \<and> config_actions (snd (main Setup subdir_world)) = []
   \<and> fst (main Setup no_pre_commit_world) = Exit 1
   \<and> fs (snd (main Setup no_pre_commit_world)) = fs no_pre_commit_world
   \<and> config_actions (snd (main Setup no_pre_commit_world)) = []"
  using main_exit_codes[of Setup sample_world] main_exit_codes[of DryRun sample_world]
    main_exit_codes[of Setup subdir_world] main_exit_codes[of Setup no_pre_commit_world]
  by (simp add: eval_defs subdir_world_def no_pre_commit_world_def config_actions_def)

section \<open>A failing hook installation\<close>

text \<open>
  C9. In real mode, when \<open>pre-commit install\<close> exits with a non-zero status and
  \<open>config_secscan\<close> invokes it, the run ends with CalledProcessError: the invocation is
  the last call made and the only invocation, so nothing is retried. The configuration
  file is then a complete one containing \<open>id: gitleaks\<close>: either the filesystem is
  untouched, or the file holds the whole generated text, whose write precedes the
  invocation. The script does not catch the error: a \<open>--setup\<close> run that reaches
  \<open>config_secscan\<close> in this world ends with the uncaught CalledProcessError.
\<close>

theorem install_failure_propagates:
  assumes "run w install_cmd = Exited rc out" and "rc \<noteq> 0"
    and "config_secscan pcv gv False w = (r, w')"
    and "Run install_cmd \<in> set (calls_since w w')"
  shows "r = Inl CalledProcessError
       \<and> (\<exists>before. calls_since w w' = before @ [Run install_cmd] \<and>
             Run install_cmd \<notin> set before \<and>
             (fs w' = fs w \<or> WriteText (config_path w) (pre_commit_config gv) \<in> set before))
       \<and> (\<exists>c. fs w' (config_path w) = Some (File c) \<and> py_in ''id: gitleaks'' c \<and>
             (fs w' = fs w \<or> c = pre_commit_config gv))
       \<and> (\<forall>w0 w1 cs. check_in_repo w0 = (Inr True, w1) \<and> check_commands w1 = (Inr cs, w) \<and>
             status (gitleaks cs) \<and> status (pre_commit cs) \<and>
             version (pre_commit cs) = pcv \<and> version (gitleaks cs) = gv \<longrightarrow>
             main Setup w0 = (Uncaught CalledProcessError, w'))"
proof -
  have r: "r = Inl CalledProcessError"
    using install_failure_core[OF assms] by blast
  have "main Setup w0 = (Uncaught CalledProcessError, w')"
    if "check_in_repo w0 = (Inr True, w1) \<and> check_commands w1 = (Inr cs, w) \<and>
             status (gitleaks cs) \<and> status (pre_commit cs) \<and>
             version (pre_commit cs) = pcv \<and> version (gitleaks cs) = gv" for w0 w1 cs
    using that assms(3) r by (simp add: main_def)
  then show ?thesis using install_failure_core[OF assms] by blast
qed

theorem install_failure_propagates_witness:
  "run (failing_install sample_world) install_cmd = Exited 1 ''''
   \<and> Run install_cmd \<in> set (calls_since (failing_install sample_world)
        (snd (config_secscan ''3.0.0'' ''8.18.2'' False (failing_install sample_world))))
   \<and> fst (config_secscan ''3.0.0'' ''8.18.2'' False (failing_install sample_world)) =
        Inl CalledProcessError
   \<and> fs (snd (config_secscan ''3.0.0'' ''8.18.2'' False (failing_install sample_world)))
        ''/repo/.pre-commit-config.yaml'' = Some (File (pre_commit_config ''8.18.2''))
   \<and> fst (main Setup (failing_install sample_world)) = Uncaught CalledProcessError"
  using install_failure_propagates[OF _ _ surjective_pairing,
      of "failing_install sample_world" 1 "''''" "''3.0.0''" "''8.18.2''"]
  by (simp add: eval_defs failing_install_def calls_since_def)

section \<open>The tool probe: second tool absent\<close>

text \<open>
  C10. When \<open>gitleaks\<close> is found, \<open>gitleaks version\<close> exits with status 0 and yields a
  version token, but \<open>pre-commit\<close> is not found, the try block has detected the scanner
  (status true, the version parsed), yet \<open>check_commands\<close> returns the same value as
  when the scanner is absent: the scanner not installed with an empty version. The
  hook manager is looked up and never run.
\<close>

theorem pre_commit_absent_discards:
  assumes "which w ''gitleaks'' = Some g"
    and "run w gitleaks_version_cmd = Exited 0 out"
    and "first_token out \<noteq> []"
    and "which w ''pre-commit'' = None"
  shows "fst (try_gitleaks (log (Which ''gitleaks'') w)) =
           Inr \<lparr>status = True, version = py_removeprefix ''v'' (first_token out)\<rparr>
       \<and> fst (check_commands w) = Inr not_installed
       \<and> status (gitleaks not_installed) = False \<and> version (gitleaks not_installed) = ''''
       \<and> trace (snd (check_commands w)) =
           trace w @ [Which ''gitleaks'', Run gitleaks_version_cmd, Which ''pre-commit'']"
  using assms by (simp add: check_commands_def try_gitleaks_ok not_installed_def)

theorem pre_commit_absent_discards_witness:
  "which no_pre_commit_world ''gitleaks'' = Some ''/usr/bin/gitleaks''
   \<and> run no_pre_commit_world gitleaks_version_cmd = Exited 0 ''v8.18.2\<newline>''
   \<and> first_token ''v8.18.2\<newline>'' \<noteq> []
   \<and> which no_pre_commit_world ''pre-commit'' = None
   \<and> fst (try_gitleaks (log (Which ''gitleaks'') no_pre_commit_world)) =
        Inr \<lparr>status = True, version = ''8.18.2''\<rparr>
   \<and> fst (check_commands no_pre_commit_world) =
        Inr \<lparr>gitleaks = \<lparr>status = False, version = ''''\<rparr>,
             pre_commit = \<lparr>status = False, version = ''''\<rparr>\<rparr>"
  using pre_commit_absent_discards[of no_pre_commit_world "''/usr/bin/gitleaks''" "''v8.18.2\<newline>''"]
  by (simp add: eval_defs no_pre_commit_world_def first_token_def)

end
